theory Spec2Isabelle
  imports Complex_Main "HOL-Library.Multiset" "HOL-Library.Char_ord" "HOL-Library.List_Lexorder"
    "HOL-Library.Product_Lexorder"
begin

section \<open>Numbers of the permutation tables\<close>

text \<open>
  The entries of the reslice tables are JavaScript numbers, and the code reads their sign
  with a reciprocal test so that \<open>-0\<close> counts as negative. A number is modelled by its
  class: not-a-number, the two infinities, negative zero, and a finite value (\<open>Fin 0\<close> is
  positive zero). The finite values are kept exact (rationals): rounding and overflow keep
  the sign of a reciprocal, and the reciprocal of a finite double is never zero, which is
  all the sign test looks at.
\<close>

datatype jsnum = NaN | PosInf | NegInf | NegZero | Fin rat

text \<open>\<open>Math.abs(x)\<close>.\<close>

fun Math_abs :: "jsnum \<Rightarrow> jsnum" where
  "Math_abs NaN = NaN"
| "Math_abs PosInf = PosInf"
| "Math_abs NegInf = PosInf"
| "Math_abs NegZero = Fin 0"
| "Math_abs (Fin r) = Fin \<bar>r\<bar>"

text \<open>\<open>1 / x\<close>.\<close>

fun reciprocal :: "jsnum \<Rightarrow> jsnum" where
  "reciprocal NaN = NaN"
| "reciprocal PosInf = Fin 0"
| "reciprocal NegInf = NegZero"
| "reciprocal NegZero = NegInf"
| "reciprocal (Fin r) = (if r = 0 then PosInf else Fin (1 / r))"

text \<open>\<open>a === b\<close> on numbers: not-a-number equals nothing, the two zeros are equal.\<close>

fun strict_equal :: "jsnum \<Rightarrow> jsnum \<Rightarrow> bool" where
  "strict_equal NaN _ = False"
| "strict_equal _ NaN = False"
| "strict_equal PosInf b = (b = PosInf)"
| "strict_equal NegInf b = (b = NegInf)"
| "strict_equal NegZero b = (b = NegZero \<or> b = Fin 0)"
| "strict_equal (Fin r) b = (b = Fin r \<or> (r = 0 \<and> b = NegZero))"

text \<open>\<open>isNegativeSign(x)\<close>: \<open>1 / x !== 1 / Math.abs(x)\<close>.\<close>

definition isNegativeSign :: "jsnum \<Rightarrow> bool" where
  "isNegativeSign x = (\<not> strict_equal (reciprocal x) (reciprocal (Math_abs x)))"

text \<open>
  A number used as an array index (\<open>a[x]\<close>): a non-negative integer names an element
  (\<open>-0\<close> names element 0, as its property key is \<open>"0"\<close>); any other number names no element.
\<close>

fun array_index :: "jsnum \<Rightarrow> nat option" where
  "array_index (Fin r) = (if 0 \<le> r \<and> r = of_int \<lfloor>r\<rfloor> then Some (nat \<lfloor>r\<rfloor>) else None)"
| "array_index NegZero = Some 0"
| "array_index _ = None"

section \<open>Arrays\<close>

text \<open>
  An array whose elements may be \<open>undefined\<close> is a list of options. Reading outside the
  array gives \<open>undefined\<close>.
\<close>

definition js_get :: "'a option list \<Rightarrow> jsnum \<Rightarrow> 'a option" where
  "js_get xs x = (case array_index x of
       None \<Rightarrow> None
     | Some i \<Rightarrow> (if i < length xs then xs ! i else None))"

section \<open>The reslice tables\<close>

datatype orientation = Sagittal | Coronal | Axial

text \<open>
  \<open>resliceTable[from][to]\<close>; the object has no entry for a pair of equal orientations,
  where the lookup gives \<open>undefined\<close>.
\<close>

fun resliceTable :: "orientation \<Rightarrow> orientation \<Rightarrow> jsnum list option" where
  "resliceTable Sagittal Coronal = Some [Fin (-2), Fin 1, Fin 0]"
| "resliceTable Sagittal Axial = Some [Fin (-2), Fin 0, Fin (-1)]"
| "resliceTable Coronal Sagittal = Some [Fin 2, Fin 1, NegZero]"
| "resliceTable Coronal Axial = Some [Fin 0, Fin 2, Fin (-1)]"
| "resliceTable Axial Sagittal = Some [Fin 1, Fin (-2), NegZero]"
| "resliceTable Axial Coronal = Some [Fin 0, Fin (-2), Fin 1]"
| "resliceTable _ _ = None"

text \<open>\<open>permuteValues(convertArray, sourceArray)\<close>.\<close>

definition permuteValues :: "jsnum list \<Rightarrow> 'a option list \<Rightarrow> 'a option list" where
  "permuteValues convertArray sourceArray = map (js_get sourceArray) convertArray"

section \<open>Errors\<close>

text \<open>
  \<open>TypeError\<close> is what the engine raises when a property of \<open>undefined\<close> is read or
  written, or a property of a primitive is assigned in module (strict) code; \<open>Thrown\<close> is a
  value thrown by the code itself. \<open>StringArithmetic\<close> marks the places where \<open>+=\<close> meets
  an array and concatenates text instead of adding numbers: what the code computes from
  there on depends on how numbers print, and the model stops there.
\<close>

datatype error = TypeError | Thrown string | StringArithmetic

section \<open>Remapping a voxel\<close>

text \<open>
  \<open>ijk[x] = v\<close> on the three-element array \<open>ijk\<close>. The index is the absolute value of a
  table entry; an index that names no element of the array leaves the three elements as
  they are.
\<close>

definition js_set :: "'a list \<Rightarrow> jsnum \<Rightarrow> 'a \<Rightarrow> 'a list" where
  "js_set xs x v = (case array_index x of
       None \<Rightarrow> xs
     | Some i \<Rightarrow> (if i < length xs then xs[i := v] else xs))"

text \<open>
  \<open>remapVoxel([i, j, k], fromOrientation, toOrientation)\<close>; the voxel is an array of three
  coordinates. The dimensions come from \<open>getSerieDimensions()\<close> of the loaders, whose
  source is not at hand: they are the parameter \<open>dims\<close>, one array of three extents for
  each orientation. Voxel coordinates and extents are integers.
\<close>

definition remapVoxel ::
  "(orientation \<Rightarrow> int list) \<Rightarrow> int list \<Rightarrow> orientation \<Rightarrow> orientation \<Rightarrow> error + int list" where
  "remapVoxel dims ijk0 fromOrientation toOrientation =
     (let i = ijk0 ! 0; j = ijk0 ! 1; k = ijk0 ! 2 in
      if fromOrientation = toOrientation then Inr [i, j, k]
      else case resliceTable toOrientation fromOrientation of
        None \<Rightarrow> Inl TypeError
      | Some permuteTable \<Rightarrow>
          (let permuteAbsTable = map Math_abs permuteTable;
               i' = (if isNegativeSign (permuteTable ! 0) then dims fromOrientation ! 0 - i else i);
               j' = (if isNegativeSign (permuteTable ! 1) then dims fromOrientation ! 1 - j else j);
               k' = (if isNegativeSign (permuteTable ! 2) then dims fromOrientation ! 2 - k else k);
               ijk = [0, 0, 0];
               ijk = js_set ijk (permuteAbsTable ! 0) i';
               ijk = js_set ijk (permuteAbsTable ! 1) j';
               ijk = js_set ijk (permuteAbsTable ! 2) k'
           in Inr ijk))"

section \<open>Series\<close>

text \<open>
  The metadata of a slice: the raw attribute codes and the semantic aliases that the code
  reads. A field that the object does not have is \<open>None\<close>. Sizes and instance numbers
  are integers; positions, orientations, spacings and pixel extrema are numbers, kept exact.
\<close>

type_synonym imageId = string

record metadata =
  repr :: "string option"
  rows :: "nat option"
  cols :: "nat option"
  x00280010 :: "nat option"
  x00280011 :: "nat option"
  imageOrientation :: "rat list option"
  x00200037 :: "rat list option"
  imagePosition :: "rat list option"
  x00200032 :: "rat list option"
  pixelSpacing :: "rat list option"
  x00280030 :: "rat list option"
  x00180050 :: "rat option"
  maxPixelValue :: "rat option"
  minPixelValue :: "rat option"
  x00200013 :: "int option"
  x00181090 :: "int option"
  x00080033 :: "string option"

record slice_instance =
  metadata :: metadata
  pixelData :: "int list"

record series =
  imageIds :: "imageId list"
  instances :: "imageId \<rightharpoonup> slice_instance"

text \<open>
  \<open>seriesData.instances[seriesData.imageIds[n]]\<close>: outside the list the identifier is
  \<open>undefined\<close>, which names no instance.
\<close>

definition instance_at :: "series \<Rightarrow> nat \<Rightarrow> slice_instance option" where
  "instance_at seriesData n =
     (if n < length (imageIds seriesData) then instances seriesData (imageIds seriesData ! n)
      else None)"

section \<open>Geometry primitives\<close>

text \<open>
  A number that may be missing: \<open>None\<close> stands for \<open>undefined\<close> and for not-a-number,
  which behave alike in arithmetic (the result is not a number) and in comparisons (false).
\<close>

type_synonym num = "rat option"

definition num_add :: "num \<Rightarrow> num \<Rightarrow> num" where
  "num_add a b = (case (a, b) of (Some x, Some y) \<Rightarrow> Some (x + y) | _ \<Rightarrow> None)"

definition num_sub :: "num \<Rightarrow> num \<Rightarrow> num" where
  "num_sub a b = (case (a, b) of (Some x, Some y) \<Rightarrow> Some (x - y) | _ \<Rightarrow> None)"

definition num_mul :: "num \<Rightarrow> num \<Rightarrow> num" where
  "num_mul a b = (case (a, b) of (Some x, Some y) \<Rightarrow> Some (x * y) | _ \<Rightarrow> None)"

definition num_abs :: "num \<Rightarrow> num" where
  "num_abs a = map_option abs a"

definition num_neg :: "num \<Rightarrow> num" where
  "num_neg a = map_option uminus a"

text \<open>\<open>xs[n]\<close> for a literal index \<open>n\<close>.\<close>

definition js_nth :: "'a option list \<Rightarrow> nat \<Rightarrow> 'a option" where
  "js_nth xs n = (if n < length xs then xs ! n else None)"

text \<open>\<open>getNormalOrientation(el)\<close>.\<close>

definition getNormalOrientation :: "num list \<Rightarrow> num list" where
  "getNormalOrientation el =
     (let a = [js_nth el 0, js_nth el 1, js_nth el 2];
          b = [js_nth el 3, js_nth el 4, js_nth el 5];
          n = [num_sub (num_mul (js_nth a 1) (js_nth b 2)) (num_mul (js_nth a 2) (js_nth b 1)),
               num_sub (num_mul (js_nth a 2) (js_nth b 0)) (num_mul (js_nth a 0) (js_nth b 2)),
               num_sub (num_mul (js_nth a 0) (js_nth b 1)) (num_mul (js_nth a 1) (js_nth b 0))]
      in n)"

text \<open>The values a function of the module returns to its caller.\<close>

datatype jsval = Undefined | NotANumber | Number rat | Array "rat list"

definition number_val :: "num \<Rightarrow> jsval" where
  "number_val a = (case a of None \<Rightarrow> NotANumber | Some r \<Rightarrow> Number r)"

text \<open>
  \<open>a ? a : b\<close> for two attributes that hold arrays when present (an array is always
  truthy).
\<close>

definition or_else :: "'a option \<Rightarrow> 'a option \<Rightarrow> 'a option" where
  "or_else a b = (case a of Some v \<Rightarrow> Some v | None \<Rightarrow> b)"

text \<open>The projection \<open>normal[0] * p[0] + normal[1] * p[1] + normal[2] * p[2]\<close>.\<close>

definition projection :: "num list \<Rightarrow> num list \<Rightarrow> num" where
  "projection normal p =
     num_add (num_add (num_mul (js_nth normal 0) (js_nth p 0))
                      (num_mul (js_nth normal 1) (js_nth p 1)))
             (num_mul (js_nth normal 2) (js_nth p 2))"

text \<open>\<open>getDistanceBetweenSlices(seriesData, sliceIndex1, sliceIndex2)\<close>.\<close>

definition getDistanceBetweenSlices :: "series \<Rightarrow> nat \<Rightarrow> nat \<Rightarrow> error + jsval" where
  "getDistanceBetweenSlices seriesData sliceIndex1 sliceIndex2 =
     (if length (imageIds seriesData) \<le> 1 then Inr (Number 0)
      else case instance_at seriesData sliceIndex1 of
        None \<Rightarrow> Inl TypeError
      | Some instance1 \<Rightarrow>
          (let metadata1 = metadata instance1;
               imageOrientation1 = or_else (imageOrientation metadata1) (x00200037 metadata1);
               imagePosition1 = or_else (imagePosition metadata1) (x00200032 metadata1)
           in case (imageOrientation1, imagePosition1) of
             (Some orientation, Some position) \<Rightarrow>
               (let normal = getNormalOrientation (map Some orientation);
                    d1 = projection normal (map Some position)
                in case instance_at seriesData sliceIndex2 of
                  None \<Rightarrow> Inl TypeError
                | Some instance2 \<Rightarrow>
                    (let metadata2 = metadata instance2
                     in case or_else (imagePosition metadata2) (x00200032 metadata2) of
                       None \<Rightarrow> Inl TypeError
                     | Some position2 \<Rightarrow>
                         (let d2 = projection normal (map Some position2)
                          in Inr (number_val (num_abs (num_sub d1 d2))))))
           | _ \<Rightarrow> Inr Undefined))"

section \<open>Mean of a tag over the slices\<close>







section \<open>Header of a volume\<close>





section \<open>Sorting the stack\<close>

text \<open>
  The value the sort callback returns for one image: a number, not-a-number (\<open>parseInt\<close>
  of a missing attribute), a string, or \<open>undefined\<close>.
\<close>

datatype sortkey = KUndefined | KNaN | KNum rat | KStr string

text \<open>
  The ascending order of \<open>sortBy\<close> (lodash, not part of the sources): numbers by value and
  strings by their characters, then \<open>undefined\<close>, then not-a-number; images whose keys are
  equal keep their order. A series gives keys of one kind to one method, so numbers are
  never compared with strings.
\<close>

fun key_ord :: "sortkey \<Rightarrow> nat \<times> rat \<times> string" where
  "key_ord (KNum r) = (0, r, [])"
| "key_ord (KStr t) = (0, 0, t)"
| "key_ord KUndefined = (1, 0, [])"
| "key_ord KNaN = (2, 0, [])"

definition sortBy :: "'a list \<Rightarrow> ('a \<Rightarrow> sortkey) \<Rightarrow> 'a list" where
  "sortBy collection iteratee = sort_key (\<lambda>x. key_ord (iteratee x)) collection"

text \<open>\<open>a <= b\<close> on numbers that may be missing.\<close>

definition num_le :: "num \<Rightarrow> num \<Rightarrow> bool" where
  "num_le a b = (case (a, b) of (Some x, Some y) \<Rightarrow> x \<le> y | _ \<Rightarrow> False)"

text \<open>
  The \<open>imagePosition\<close> case of the callback: \<open>p\<close> and \<open>o\<close> are the position and the
  orientation (the empty array when the attribute is missing).
\<close>

definition position_key :: "rat list \<Rightarrow> rat list \<Rightarrow> sortkey" where
  "position_key p ori =
     (let p' = map Some p; o' = map Some ori;
          v1 = num_add (num_mul (js_nth o' 0) (js_nth o' 0)) (num_mul (js_nth o' 3) (js_nth o' 3));
          v2 = num_add (num_mul (js_nth o' 1) (js_nth o' 1)) (num_mul (js_nth o' 4) (js_nth o' 4));
          v3 = num_add (num_mul (js_nth o' 2) (js_nth o' 2)) (num_mul (js_nth o' 5) (js_nth o' 5));
          sortIndex = None;
          sortIndex = (if num_le v1 v2 \<and> num_le v2 v3 then Some 0 else sortIndex);
          sortIndex = (if num_le v2 v1 \<and> num_le v2 v3 then Some 1 else sortIndex);
          sortIndex = (if num_le v3 v1 \<and> num_le v3 v2 then Some 2 else sortIndex)
      in case sortIndex of
           None \<Rightarrow> KUndefined
         | Some n \<Rightarrow> (case js_nth p' n of None \<Rightarrow> KUndefined | Some r \<Rightarrow> KNum r))"

text \<open>\<open>sortStackCallback(seriesData, imageId, method)\<close>.\<close>

definition sortStackCallback :: "series \<Rightarrow> imageId \<Rightarrow> string \<Rightarrow> error + sortkey" where
  "sortStackCallback seriesData imageId method =
     (if method = ''instanceNumber'' then
        (case instances seriesData imageId of
           None \<Rightarrow> Inl TypeError
         | Some inst \<Rightarrow>
             (case x00200013 (metadata inst) of
                None \<Rightarrow> Inr KNaN
              | Some instanceNumber \<Rightarrow> Inr (KNum (of_int instanceNumber))))
      else if method = ''contentTime'' then
        (case instances seriesData imageId of
           None \<Rightarrow> Inl TypeError
         | Some inst \<Rightarrow>
             (case (x00181090 (metadata inst), x00080033 (metadata inst)) of
                (Some cardiacNumberOfImages, Some contentTime) \<Rightarrow>
                  (if cardiacNumberOfImages \<noteq> 0 \<and> cardiacNumberOfImages > 1 \<and> contentTime \<noteq> []
                   then Inr (KStr contentTime)
                   else Inl (Thrown ''Not a time series: cardiacNumberOfImages tag not available or <= 1.''))
              | _ \<Rightarrow> Inl (Thrown ''Not a time series: cardiacNumberOfImages tag not available or <= 1.'')))
      else if method = ''imagePosition'' then
        (case instances seriesData imageId of
           None \<Rightarrow> Inl TypeError
         | Some inst \<Rightarrow>
             Inr (position_key
                    (case imagePosition (metadata inst) of None \<Rightarrow> [] | Some p \<Rightarrow> p)
                    (case imageOrientation (metadata inst) of None \<Rightarrow> [] | Some ori \<Rightarrow> ori)))
      else Inr KUndefined)"

text \<open>The first exception among the results of the callback, if any.\<close>

fun first_error :: "(error + 'a) list \<Rightarrow> error option" where
  "first_error [] = None"
| "first_error (Inl e # _) = Some e"
| "first_error (Inr _ # rs) = first_error rs"

text \<open>
  The \<open>try\<close> block of \<open>tryToSort\<close>: \<open>sortBy\<close> calls the callback on every image before it
  orders them, so an exception of the callback on any image leaves the block.
\<close>

definition sort_attempt :: "series \<Rightarrow> string \<Rightarrow> error + imageId list" where
  "sort_attempt data sortMethod =
     (case first_error (map (\<lambda>imageId. sortStackCallback data imageId sortMethod) (imageIds data)) of
        Some e \<Rightarrow> Inl e
      | None \<Rightarrow>
          Inr (sortBy (imageIds data)
                 (\<lambda>imageId. case sortStackCallback data imageId sortMethod of
                                Inr key \<Rightarrow> key
                              | Inl _ \<Rightarrow> KUndefined)))"

text \<open>
  \<open>tryToSort(data, methods)\<close>: with no method left, the variable \<open>sorted\<close> of this call
  has no value and the result is \<open>undefined\<close> (\<open>None\<close>). Both branches on
  \<open>returnSuccessMethod\<close> return \<open>sorted\<close>.
\<close>

fun tryToSort :: "series \<Rightarrow> bool \<Rightarrow> string list \<Rightarrow> imageId list option" where
  "tryToSort data returnSuccessMethod [] = None"
| "tryToSort data returnSuccessMethod (sortMethod # methods) =
     (case sort_attempt data sortMethod of
        Inr sorted' \<Rightarrow> (if returnSuccessMethod then Some sorted' else Some sorted')
      | Inl ex \<Rightarrow> tryToSort data returnSuccessMethod methods)"

text \<open>\<open>getSortedStack(seriesData, sortPriorities, returnSuccessMethod)\<close>.\<close>

definition getSortedStack :: "series \<Rightarrow> string list \<Rightarrow> bool \<Rightarrow> imageId list option" where
  "getSortedStack seriesData sortPriorities returnSuccessMethod =
     (let clonedList = sortPriorities
      in tryToSort seriesData returnSuccessMethod clonedList)"

section \<open>Reslicing: the metadata\<close>

text \<open>
  \<open>max(array)\<close> of lodash skips what is not a number and is \<open>undefined\<close> when nothing is
  left; \<open>indexOf(array, v)\<close> is the first position of \<open>v\<close>, or \<open>-1\<close>.
\<close>

fun lodash_max :: "num list \<Rightarrow> num" where
  "lodash_max [] = None"
| "lodash_max (x # xs) =
     (case (x, lodash_max xs) of
        (None, m) \<Rightarrow> m
      | (Some a, None) \<Rightarrow> Some a
      | (Some a, Some b) \<Rightarrow> Some (max a b))"

fun indexOf :: "'a list \<Rightarrow> 'a \<Rightarrow> int" where
  "indexOf [] v = - 1"
| "indexOf (x # xs) v =
     (if x = v then 0 else (let n = indexOf xs v in if n < 0 then - 1 else n + 1))"

text \<open>\<open>indexOf(a, max(a))\<close> for an array of absolute values.\<close>

definition major_index :: "num list \<Rightarrow> int" where
  "major_index a = (case lodash_max a of None \<Rightarrow> - 1 | Some m \<Rightarrow> indexOf a (Some m))"

text \<open>
  Reads at a computed index: \<open>permuteTable[n]\<close> as the sign test sees it (\<open>undefined\<close>
  becomes not-a-number under \<open>1 / x\<close>), and \<open>a[n]\<close>.
\<close>

definition table_at :: "jsnum list \<Rightarrow> int \<Rightarrow> jsnum" where
  "table_at t n = (if 0 \<le> n \<and> nat n < length t then t ! nat n else NaN)"

definition js_at :: "'a option list \<Rightarrow> int \<Rightarrow> 'a option" where
  "js_at xs n = (if 0 \<le> n \<and> nat n < length xs then xs ! nat n else None)"

definition size_num :: "nat option \<Rightarrow> num" where
  "size_num n = map_option of_nat n"

text \<open>\<open>permuteSignedArrays(convertArray, sourceArray)\<close>.\<close>

fun permuteSignedArrays ::
  "jsnum list \<Rightarrow> num list option list \<Rightarrow> error + num list option list" where
  "permuteSignedArrays [] sourceArray = Inr []"
| "permuteSignedArrays (c # convertArray) sourceArray =
     (let sourceIndex = Math_abs c
      in case (if isNegativeSign c
               then (case js_get sourceArray sourceIndex of
                       None \<Rightarrow> Inl TypeError
                     | Some vec \<Rightarrow> Inr (Some (map num_neg vec)))
               else Inr (js_get sourceArray sourceIndex)) of
           Inl e \<Rightarrow> Inl e
         | Inr out \<Rightarrow>
             (case permuteSignedArrays convertArray sourceArray of
                Inl e \<Rightarrow> Inl e
              | Inr rest \<Rightarrow> Inr (out # rest)))"

text \<open>\<open>getReslicedIOP(iop, permuteTable)\<close>; the result \<open>None\<close> is \<open>null\<close>.\<close>

definition getReslicedIOP :: "rat list option \<Rightarrow> jsnum list \<Rightarrow> error + num list option" where
  "getReslicedIOP iop permuteTable =
     (case iop of
        None \<Rightarrow> Inr None
      | Some iop' \<Rightarrow>
          (let el = map Some iop';
               u = take 3 el;
               v = take 3 (drop 3 el);
               w = getNormalOrientation el
           in case permuteSignedArrays permuteTable [Some u, Some v, Some w] of
                Inl e \<Rightarrow> Inl e
              | Inr shuffledIop \<Rightarrow>
                  (case js_nth shuffledIop 0 of
                     None \<Rightarrow> Inl TypeError
                   | Some row \<Rightarrow>
                       Inr (Some (row @ (case js_nth shuffledIop 1 of
                                           None \<Rightarrow> [None]
                                         | Some col \<Rightarrow> col))))))"

text \<open>The slice index counted from the end when the table entry is negative.\<close>

definition flipped_index :: "jsnum list \<Rightarrow> nat option list \<Rightarrow> int \<Rightarrow> nat \<Rightarrow> num" where
  "flipped_index permuteTable toSize axis imageIndex =
     (if isNegativeSign (table_at permuteTable axis)
      then num_sub (size_num (js_at toSize axis)) (Some (of_nat imageIndex))
      else Some (of_nat imageIndex))"

text \<open>\<open>array.map((val, i) => f(val, i))\<close>.\<close>

definition map_indexed :: "('a \<Rightarrow> nat \<Rightarrow> 'b) \<Rightarrow> 'a list \<Rightarrow> 'b list" where
  "map_indexed f xs = map (\<lambda>(val, i). f val i) (zip xs [0..<length xs])"

text \<open>
  \<open>getReslicedIPP(ipp, iop, reslicedIOP, permuteTable, imageIndex, fromSize, toSize,
  fromSpacing)\<close>.
\<close>

definition getReslicedIPP ::
  "rat list option \<Rightarrow> rat list option \<Rightarrow> num list option \<Rightarrow> jsnum list \<Rightarrow> nat \<Rightarrow>
   nat option list \<Rightarrow> nat option list \<Rightarrow> num list \<Rightarrow> error + num list" where
  "getReslicedIPP ipp iop reslicedIOP permuteTable imageIndex fromSize toSize fromSpacing =
     (case iop of
        None \<Rightarrow> Inl TypeError
      | Some iop' \<Rightarrow>
     (case reslicedIOP of
        None \<Rightarrow> Inl TypeError
      | Some reslicedIOP' \<Rightarrow>
     (let el = map Some iop';
          u = take 3 el;
          v = take 3 (drop 3 el);
          w = getNormalOrientation el;
          absW = map num_abs w;
          majorOriginalIndex = major_index absW;
          normalReslicedIop = map num_abs (getNormalOrientation reslicedIOP');
          majorIndex = major_index normalReslicedIop;
          index = flipped_index permuteTable toSize majorIndex imageIndex
      in case (if isNegativeSign (table_at permuteTable 1)
               then (case ipp of
                       None \<Rightarrow> Inl TypeError
                     | Some p \<Rightarrow>
                         Inr (Some (map_indexed
                                (\<lambda>val i. num_add (Some val)
                                   (num_mul (num_mul (size_num (js_nth fromSize 2))
                                                     (js_nth fromSpacing 2))
                                            (js_nth w i)))
                                p)))
               else Inr (map_option (map Some) ipp)) of
           Inl e \<Rightarrow> Inl e
         | Inr ipp' \<Rightarrow>
             (let (index, spacing_versor) =
                    (if majorIndex = 0 then (index, Some (js_nth fromSpacing 0, u))
                     else if majorIndex = 1 then
                       (if majorOriginalIndex = 0 then (index, Some (js_nth fromSpacing 0, u))
                        else if majorOriginalIndex = 2 then
                          (flipped_index permuteTable toSize majorOriginalIndex imageIndex,
                           Some (js_nth fromSpacing 1, v))
                        else (index, None))
                     else if majorIndex = 2 then (index, Some (js_nth fromSpacing 1, v))
                     else (index, None))
              in case ipp' of
                   None \<Rightarrow> Inl TypeError
                 | Some p \<Rightarrow>
                     (case spacing_versor of
                        None \<Rightarrow> (if p = [] then Inr [] else Inl TypeError)
                      | Some (spacing, versor) \<Rightarrow>
                          Inr (map_indexed
                                 (\<lambda>val i. num_add val
                                    (num_mul (num_mul index spacing) (js_nth versor i)))
                                 p))))))"

text \<open>\<open>getReslicedSliceLocation(reslicedIOP, reslicedIPP)\<close>.\<close>

definition getReslicedSliceLocation :: "num list option \<Rightarrow> num list \<Rightarrow> error + num" where
  "getReslicedSliceLocation reslicedIOP reslicedIPP =
     (case reslicedIOP of
        None \<Rightarrow> Inl TypeError
      | Some reslicedIOP' \<Rightarrow>
          (let normalReslicedIop = map num_abs (getNormalOrientation reslicedIOP');
               majorIndex = major_index normalReslicedIop
           in Inr (js_at reslicedIPP majorIndex)))"

text \<open>
  \<open>spacingArray(seriesData, sampleMetadata)\<close>: a slice thickness of zero is falsy, and the
  distance between the first two slices stands in for it.
\<close>

definition spacingArray :: "series \<Rightarrow> metadata \<Rightarrow> error + num list" where
  "spacingArray seriesData sampleMetadata =
     (let computed = (case getDistanceBetweenSlices seriesData 0 1 of
                        Inl e \<Rightarrow> Inl e
                      | Inr (Number r) \<Rightarrow> Inr (Some r)
                      | Inr _ \<Rightarrow> Inr None)
      in case (case x00180050 sampleMetadata of
                 Some t \<Rightarrow> (if t \<noteq> 0 then Inr (Some t) else computed)
               | None \<Rightarrow> computed) of
           Inl e \<Rightarrow> Inl e
         | Inr distanceBetweenSlices \<Rightarrow>
             (case x00280030 sampleMetadata of
                None \<Rightarrow> Inl TypeError
              | Some spacing \<Rightarrow>
                  Inr [js_nth (map Some spacing) 1, js_nth (map Some spacing) 0,
                       distanceBetweenSlices]))"

text \<open>
  The metadata of a resliced slice: the fields that the reslice computes, and the pixel
  representation it keeps from the sample. The identifiers and the attributes copied
  unchanged from the sample (patient, study, window) are left out: nothing here reads them.
\<close>

record resliced_metadata =
  resliced_repr :: "string option"
  resliced_x00280010 :: "nat option"
  resliced_x00280011 :: "nat option"
  resliced_x00280030 :: "num list"
  resliced_x00180050 :: "num list"
  resliced_x00200013 :: nat
  resliced_x00201041 :: num
  resliced_x00200037 :: "num list option"
  resliced_x00200032 :: "num list"

record resliced_instance =
  resliced_metadata :: resliced_metadata
  resliced_permuteTable :: "jsnum list"

record resliced_series =
  resliced_imageIds :: "imageId list"
  resliced_instances :: "imageId \<rightharpoonup> resliced_instance"

text \<open>The body of the loop of \<open>getReslicedMetadata\<close> for the output slice \<open>f\<close>.\<close>

definition resliced_frame ::
  "metadata \<Rightarrow> jsnum list \<Rightarrow> nat option list \<Rightarrow> nat option list \<Rightarrow> num list \<Rightarrow> num list \<Rightarrow>
   num list option \<Rightarrow> nat \<Rightarrow> error + resliced_instance" where
  "resliced_frame sampleMetadata permuteTable fromSize toSize fromSpacing toSpacing reslicedIOP f =
     (case getReslicedIPP (x00200032 sampleMetadata) (x00200037 sampleMetadata) reslicedIOP
             permuteTable f fromSize toSize fromSpacing of
        Inl e \<Rightarrow> Inl e
      | Inr reslicedIPP \<Rightarrow>
          (case getReslicedSliceLocation reslicedIOP reslicedIPP of
             Inl e \<Rightarrow> Inl e
           | Inr location \<Rightarrow>
               Inr \<lparr> resliced_metadata =
                       \<lparr> resliced_repr = repr sampleMetadata,
                         resliced_x00280010 = js_nth toSize 1,
                         resliced_x00280011 = js_nth toSize 0,
                         resliced_x00280030 = [js_nth toSpacing 1, js_nth toSpacing 0],
                         resliced_x00180050 = [js_nth toSpacing 2],
                         resliced_x00200013 = f + 1,
                         resliced_x00201041 = location,
                         resliced_x00200037 = reslicedIOP,
                         resliced_x00200032 = reslicedIPP \<rparr>,
                     resliced_permuteTable = permuteTable \<rparr>))"

text \<open>
  The loop over the output slices. The identifier of slice \<open>f\<close> comes from
  \<open>getCustomImageId\<close> of the loaders, whose source is not at hand: it is the parameter
  \<open>newImageId\<close>.
\<close>

fun resliced_frames ::
  "(nat \<Rightarrow> imageId) \<Rightarrow> (nat \<Rightarrow> error + resliced_instance) \<Rightarrow> nat list \<Rightarrow> resliced_series \<Rightarrow>
   error + resliced_series" where
  "resliced_frames newImageId frame [] out = Inr out"
| "resliced_frames newImageId frame (f # fs) out =
     (case frame f of
        Inl e \<Rightarrow> Inl e
      | Inr inst \<Rightarrow>
          resliced_frames newImageId frame fs
            \<lparr> resliced_imageIds = resliced_imageIds out @ [newImageId f],
              resliced_instances = (resliced_instances out)(newImageId f \<mapsto> inst) \<rparr>)"

text \<open>
  \<open>getReslicedMetadata(reslicedSeriesId, fromOrientation, toOrientation, seriesData,
  imageLoaderName)\<close>. The two names only reach the identifiers that are left out.
\<close>

definition getReslicedMetadata ::
  "(nat \<Rightarrow> imageId) \<Rightarrow> orientation \<Rightarrow> orientation \<Rightarrow> series \<Rightarrow> error + resliced_series" where
  "getReslicedMetadata newImageId fromOrientation toOrientation seriesData =
     (case resliceTable fromOrientation toOrientation of
        None \<Rightarrow> Inl TypeError
      | Some permuteTable \<Rightarrow>
     (let permuteAbsTable = map Math_abs permuteTable
      in case instance_at seriesData 0 of
        None \<Rightarrow> Inl TypeError
      | Some sample \<Rightarrow>
     (let sampleMetadata = metadata sample;
          fromSize = [x00280011 sampleMetadata, x00280010 sampleMetadata,
                      Some (length (imageIds seriesData))];
          toSize = permuteValues permuteAbsTable fromSize
      in case spacingArray seriesData sampleMetadata of
        Inl e \<Rightarrow> Inl e
      | Inr fromSpacing \<Rightarrow>
     (let toSpacing = permuteValues permuteAbsTable fromSpacing
      in case getReslicedIOP (x00200037 sampleMetadata) permuteTable of
        Inl e \<Rightarrow> Inl e
      | Inr reslicedIOP \<Rightarrow>
          resliced_frames newImageId
            (resliced_frame sampleMetadata permuteTable fromSize toSize fromSpacing toSpacing
               reslicedIOP)
            [0..<(case js_nth toSize 2 of None \<Rightarrow> 0 | Some n \<Rightarrow> n)]
            \<lparr> resliced_imageIds = [], resliced_instances = Map.empty \<rparr>))))"

section \<open>Reslicing: the pixels of one slice\<close>

text \<open>
  The typed arrays of the six pixel representations. A typed array has a fixed length, its
  elements start at zero, a value stored in it is wrapped to the width of its elements, and
  a write outside it is dropped.
\<close>

datatype array_kind = Uint8 | Sint8 | Uint16 | Sint16 | Uint32 | Sint32

record typed_array =
  kind :: array_kind
  elements :: "int list"

fun kind_bits :: "array_kind \<Rightarrow> nat" where
  "kind_bits Uint8 = 8"
| "kind_bits Sint8 = 8"
| "kind_bits Uint16 = 16"
| "kind_bits Sint16 = 16"
| "kind_bits Uint32 = 32"
| "kind_bits Sint32 = 32"

fun kind_signed :: "array_kind \<Rightarrow> bool" where
  "kind_signed Sint8 = True"
| "kind_signed Sint16 = True"
| "kind_signed Sint32 = True"
| "kind_signed _ = False"

text \<open>The element stored for a value; \<open>undefined\<close> is stored as zero.\<close>

definition stored_value :: "array_kind \<Rightarrow> int option \<Rightarrow> int" where
  "stored_value k v =
     (case v of
        None \<Rightarrow> 0
      | Some x \<Rightarrow>
          (let m = 2 ^ kind_bits k; r = x mod m
           in if kind_signed k \<and> r \<ge> m div 2 then r - m else r))"

definition typed_array_set :: "typed_array \<Rightarrow> int \<Rightarrow> int option \<Rightarrow> typed_array" where
  "typed_array_set a n v =
     (if 0 \<le> n \<and> nat n < length (elements a)
      then a \<lparr> elements := (elements a)[nat n := stored_value (kind a) v] \<rparr>
      else a)"

text \<open>
  \<open>getPixelRepresentation(dataSet)\<close> on the metadata of a resliced slice: without a
  \<open>repr\<close> field (or with an empty one) the code goes on to \<open>getTagValue\<close>, which calls the
  parsing methods of a DICOM data set; the metadata object has none, and the call raises.
\<close>

definition getPixelRepresentation :: "resliced_metadata \<Rightarrow> error + string" where
  "getPixelRepresentation dataSet =
     (case resliced_repr dataSet of
        Some r \<Rightarrow> (if r \<noteq> [] then Inr r else Inl TypeError)
      | None \<Rightarrow> Inl TypeError)"

text \<open>
  \<open>getTypedArray(tags, size)\<close>: the \<open>switch\<close> has no default case, and the result is
  \<open>undefined\<close> (\<open>None\<close>) for any other representation.
\<close>

definition getTypedArray :: "resliced_metadata \<Rightarrow> nat \<Rightarrow> error + typed_array option" where
  "getTypedArray tags size' =
     (case getPixelRepresentation tags of
        Inl e \<Rightarrow> Inl e
      | Inr r \<Rightarrow>
          Inr (if r = ''Uint8'' then Some \<lparr> kind = Uint8, elements = replicate size' 0 \<rparr>
               else if r = ''Sint8'' then Some \<lparr> kind = Sint8, elements = replicate size' 0 \<rparr>
               else if r = ''Uint16'' then Some \<lparr> kind = Uint16, elements = replicate size' 0 \<rparr>
               else if r = ''Sint16'' then Some \<lparr> kind = Sint16, elements = replicate size' 0 \<rparr>
               else if r = ''Uint32'' then Some \<lparr> kind = Uint32, elements = replicate size' 0 \<rparr>
               else if r = ''Sint32'' then Some \<lparr> kind = Sint32, elements = replicate size' 0 \<rparr>
               else None))"

text \<open>
  \<open>getPixelValue(ijf)\<close>, the inner function of \<open>getReslicedPixeldata\<close>: \<open>undefined\<close> when
  the source slice or the source pixel does not exist.
\<close>

definition getPixelValue :: "series \<Rightarrow> nat option \<Rightarrow> int list \<Rightarrow> int option" where
  "getPixelValue originalData fromCols ijf =
     (let i = ijf ! 0; j = ijf ! 1; f = ijf ! 2
      in case (if 0 \<le> f then instance_at originalData (nat f) else None) of
           None \<Rightarrow> None
         | Some targetInstance \<Rightarrow>
             (let targetPixeldata = pixelData targetInstance
              in case fromCols of
                   None \<Rightarrow> None
                 | Some c \<Rightarrow>
                     (let index = j * int c + i
                      in if 0 \<le> index \<and> nat index < length targetPixeldata
                         then Some (targetPixeldata ! nat index) else None)))"

text \<open>The index of the output buffer written for row \<open>j\<close> and column \<open>i\<close>.\<close>

definition output_index :: "jsnum list \<Rightarrow> nat \<Rightarrow> nat \<Rightarrow> nat \<Rightarrow> nat \<Rightarrow> int" where
  "output_index permuteTable rows' cols' j i =
     (if isNegativeSign (table_at permuteTable 1)
      then int rows' * int cols' - int j * int cols' + int i
      else int j * int cols' + int i)"

text \<open>The body of the two loops for row \<open>j\<close> and column \<open>i\<close>.\<close>

definition write_pixel ::
  "series \<Rightarrow> nat option \<Rightarrow> jsnum list \<Rightarrow> int \<Rightarrow> nat \<Rightarrow> nat \<Rightarrow> nat \<Rightarrow> nat \<Rightarrow>
   typed_array \<Rightarrow> typed_array" where
  "write_pixel originalData fromCols permuteTable frame rows' cols' j i reslicedSlice =
     (let permuteAbsTable = map Math_abs permuteTable;
          ijf = [0, 0, 0];
          ijf = js_set ijf (table_at permuteAbsTable 0) (int i);
          ijf = js_set ijf (table_at permuteAbsTable 1) (int j);
          ijf = js_set ijf (table_at permuteAbsTable 2) frame;
          index = output_index permuteTable rows' cols' j i
      in typed_array_set reslicedSlice index (getPixelValue originalData fromCols ijf))"

text \<open>
  \<open>getReslicedPixeldata(imageId, originalData, reslicedData)\<close>. When the rows or the
  columns are missing their product is not a number, the buffer has no element and no loop
  runs. When the buffer is \<open>undefined\<close> the first write raises.
\<close>

definition getReslicedPixeldata ::
  "imageId \<Rightarrow> series \<Rightarrow> resliced_series \<Rightarrow> error + typed_array option" where
  "getReslicedPixeldata imageId originalData reslicedData =
     (case resliced_instances reslicedData imageId of
        None \<Rightarrow> Inl TypeError
      | Some reslicedInstance \<Rightarrow>
     (let reslicedMetadata = resliced_metadata reslicedInstance;
          permuteTable = resliced_permuteTable reslicedInstance;
          rows' = (case resliced_x00280010 reslicedMetadata of None \<Rightarrow> 0 | Some r \<Rightarrow> r);
          cols' = (case resliced_x00280011 reslicedMetadata of None \<Rightarrow> 0 | Some c \<Rightarrow> c);
          size' = (case (resliced_x00280010 reslicedMetadata, resliced_x00280011 reslicedMetadata) of
                     (Some r, Some c) \<Rightarrow> r * c
                   | _ \<Rightarrow> 0)
      in case getTypedArray reslicedMetadata size' of
        Inl e \<Rightarrow> Inl e
      | Inr reslicedSlice \<Rightarrow>
     (let frame = indexOf (resliced_imageIds reslicedData) imageId
      in case instance_at originalData 0 of
        None \<Rightarrow> Inl TypeError
      | Some originalInstance \<Rightarrow>
     (let fromCols = x00280011 (metadata originalInstance);
          frame = (if isNegativeSign (table_at permuteTable 2)
                   then int (length (resliced_imageIds reslicedData)) - frame else frame)
      in case reslicedSlice of
           None \<Rightarrow> (if 0 < rows' \<and> 0 < cols' then Inl TypeError else Inr None)
         | Some buffer \<Rightarrow>
             Inr (Some (fold (\<lambda>j. fold (write_pixel originalData fromCols permuteTable frame rows' cols' j)
                                       [0..<cols'])
                             [0..<rows'] buffer))))))"

section \<open>Conditions on the inputs\<close>

text \<open>
  Slice \<open>n\<close> of a series has what the distance between slices reads: an orientation of six
  numbers and a position of three, under the alias or under the raw code.
\<close>

definition has_geometry :: "series \<Rightarrow> nat \<Rightarrow> bool" where
  "has_geometry seriesData n =
     (case instance_at seriesData n of
        None \<Rightarrow> False
      | Some inst \<Rightarrow>
          (case (or_else (imageOrientation (metadata inst)) (x00200037 (metadata inst)),
                 or_else (imagePosition (metadata inst)) (x00200032 (metadata inst))) of
             (Some orientation, Some position) \<Rightarrow> 6 \<le> length orientation \<and> 3 \<le> length position
           | _ \<Rightarrow> False))"

text \<open>A slice lacks gating: the count of cardiac images is missing or at most 1.\<close>

definition lacks_gating :: "metadata \<Rightarrow> bool" where
  "lacks_gating m = (case x00181090 m of None \<Rightarrow> True | Some n \<Rightarrow> n \<le> 1)"

text \<open>The representations that \<open>getTypedArray\<close> has a case for.\<close>

definition supported_repr :: "string \<Rightarrow> bool" where
  "supported_repr r = (r = ''Uint8'' \<or> r = ''Sint8'' \<or> r = ''Uint16'' \<or> r = ''Sint16''
                       \<or> r = ''Uint32'' \<or> r = ''Sint32'')"

section \<open>Example inputs\<close>

text \<open>Metadata with no attribute at all.\<close>

definition no_metadata :: metadata where
  "no_metadata =
     \<lparr> repr = None, rows = None, cols = None, x00280010 = None, x00280011 = None,
       imageOrientation = None, x00200037 = None, imagePosition = None, x00200032 = None,
       pixelSpacing = None, x00280030 = None, x00180050 = None,
       maxPixelValue = None, minPixelValue = None,
       x00200013 = None, x00181090 = None, x00080033 = None \<rparr>"

text \<open>Two slices that carry no orientation and no position.\<close>

definition bare_pair :: series where
  "bare_pair =
     \<lparr> imageIds = [''a'', ''b''],
       instances = [''a'' \<mapsto> \<lparr> metadata = no_metadata, pixelData = [] \<rparr>,
                    ''b'' \<mapsto> \<lparr> metadata = no_metadata, pixelData = [] \<rparr>] \<rparr>"

text \<open>Two axial slices, five units apart, with their pixel extrema.\<close>

definition axial_slice :: "rat \<Rightarrow> rat \<Rightarrow> rat \<Rightarrow> metadata" where
  "axial_slice z hi lo =
     no_metadata \<lparr> imageOrientation := Some [1, 0, 0, 0, 1, 0],
                   imagePosition := Some [0, 0, z],
                   pixelSpacing := Some [1, 1],
                   maxPixelValue := Some hi,
                   minPixelValue := Some lo \<rparr>"

definition axial_pair :: series where
  "axial_pair =
     \<lparr> imageIds = [''a'', ''b''],
       instances = [''a'' \<mapsto> \<lparr> metadata = axial_slice 0 10 0, pixelData = [] \<rparr>,
                    ''b'' \<mapsto> \<lparr> metadata = axial_slice 5 20 2, pixelData = [] \<rparr>] \<rparr>"

text \<open>Three slices without gating attributes, with instance numbers 3, 1 and 2.\<close>

definition numbered_slice :: "int \<Rightarrow> slice_instance" where
  "numbered_slice n = \<lparr> metadata = no_metadata \<lparr> x00200013 := Some n \<rparr>, pixelData = [] \<rparr>"

definition unsorted_stack :: series where
  "unsorted_stack =
     \<lparr> imageIds = [''a'', ''b'', ''c''],
       instances = [''a'' \<mapsto> numbered_slice 3, ''b'' \<mapsto> numbered_slice 1,
                    ''c'' \<mapsto> numbered_slice 2] \<rparr>"

text \<open>
  An axial volume of 4 slices of 4 rows and 4 columns, one unit apart, of unsigned bytes:
  the pixel at column \<open>i\<close> and row \<open>j\<close> of slice \<open>f\<close> is \<open>16 f + 4 j + i + 1\<close>, never zero.
\<close>

definition cube_slice :: "nat \<Rightarrow> slice_instance" where
  "cube_slice f =
     \<lparr> metadata = no_metadata \<lparr> repr := Some ''Uint8'',
                                   x00280010 := Some 4, x00280011 := Some 4,
                                   x00200037 := Some [1, 0, 0, 0, 1, 0],
                                   x00200032 := Some [0, 0, of_nat f],
                                   x00280030 := Some [1, 1],
                                   x00200013 := Some (int f + 1) \<rparr>,
       pixelData = map (\<lambda>n. 16 * int f + int n + 1) [0..<16] \<rparr>"

definition axial_cube :: series where
  "axial_cube =
     \<lparr> imageIds = [''s0'', ''s1'', ''s2'', ''s3''],
       instances = [''s0'' \<mapsto> cube_slice 0, ''s1'' \<mapsto> cube_slice 1,
                    ''s2'' \<mapsto> cube_slice 2, ''s3'' \<mapsto> cube_slice 3] \<rparr>"

text \<open>The identifiers given to the resliced slices in the examples.\<close>

fun resliced_id :: "nat \<Rightarrow> imageId" where
  "resliced_id n = (if n = 0 then ''r0'' else if n = 1 then ''r1'' else if n = 2 then ''r2'' else ''r3'')"

text \<open>
  The sagittal slices of the cube: 4 rows, 4 columns, unsigned bytes, one unit apart, with
  the table of the pair axial, sagittal.
\<close>

definition sagittal_slice :: "nat \<Rightarrow> resliced_instance" where
  "sagittal_slice f =
     \<lparr> resliced_metadata =
         \<lparr> resliced_repr = Some ''Uint8'',
           resliced_x00280010 = Some 4,
           resliced_x00280011 = Some 4,
           resliced_x00280030 = [Some 1, Some 1],
           resliced_x00180050 = [Some 1],
           resliced_x00200013 = f + 1,
           resliced_x00201041 = Some (of_nat f),
           resliced_x00200037 = Some [Some 0, Some 1, Some 0, Some 0, Some 0, Some (- 1)],
           resliced_x00200032 = [Some (of_nat f), Some 0, Some 4] \<rparr>,
       resliced_permuteTable = [Fin 1, Fin (- 2), NegZero] \<rparr>"

definition sagittal_cube :: resliced_series where
  "sagittal_cube =
     \<lparr> resliced_imageIds = [''r0'', ''r1'', ''r2'', ''r3''],
       resliced_instances = [''r0'' \<mapsto> sagittal_slice 0, ''r1'' \<mapsto> sagittal_slice 1,
                             ''r2'' \<mapsto> sagittal_slice 2, ''r3'' \<mapsto> sagittal_slice 3] \<rparr>"

text \<open>The extents of one volume of 4 columns, 5 rows and 6 axial slices in each orientation.\<close>

fun example_dims :: "orientation \<Rightarrow> int list" where
  "example_dims Axial = [4, 5, 6]"
| "example_dims Sagittal = [5, 6, 4]"
| "example_dims Coronal = [4, 6, 5]"

section \<open>The sign test\<close>

lemma isNegativeSign_Fin: "isNegativeSign (Fin r) = (r < 0)"
  by (auto simp: isNegativeSign_def)

lemma isNegativeSign_NegZero: "isNegativeSign NegZero"
  by (simp add: isNegativeSign_def)

text \<open>
  C6, as the code has it: the sign test is true for every finite negative number and for
  negative zero, and false for every positive number, positive infinity included, and for
  positive zero.
\<close>

theorem isNegativeSign_finite:
  "(r < 0 \<longrightarrow> isNegativeSign (Fin r)) \<and> isNegativeSign NegZero
   \<and> (0 < r \<longrightarrow> \<not> isNegativeSign (Fin r)) \<and> \<not> isNegativeSign PosInf
   \<and> \<not> isNegativeSign (Fin 0)"
  by (auto simp: isNegativeSign_def)

theorem isNegativeSign_finite_witness:
  "isNegativeSign (Fin (- 2)) \<and> isNegativeSign NegZero \<and> \<not> isNegativeSign (Fin 0)"
  using isNegativeSign_finite [of "- 2"] by simp

text \<open>
  C6 as stated fails at negative infinity, a negative number: its reciprocal is negative
  zero, which \<open>!==\<close> does not tell from the positive zero that is the reciprocal of its
  absolute value.
\<close>

theorem isNegativeSign_NegInf_counterexample: "\<not> isNegativeSign NegInf"
  by (simp add: isNegativeSign_def)

section \<open>The tables\<close>

lemma resliceTable_defined: "(resliceTable a b \<noteq> None) = (a \<noteq> b)"
  by (cases a; cases b) simp_all

lemma resliceTable_pairs:
  "{(a, b). resliceTable a b \<noteq> None} =
     {(Sagittal, Coronal), (Sagittal, Axial), (Coronal, Sagittal),
      (Coronal, Axial), (Axial, Sagittal), (Axial, Coronal)}"
proof -
  have "(resliceTable a b \<noteq> None) =
          ((a, b) \<in> {(Sagittal, Coronal), (Sagittal, Axial), (Coronal, Sagittal),
                     (Coronal, Axial), (Axial, Sagittal), (Axial, Coronal)})" for a b
    by (cases a; cases b) simp_all
  then show ?thesis
    by blast
qed

text \<open>
  C5: the table has an entry exactly for the six ordered pairs of distinct orientations,
  and the absolute values of the three components of every entry are 0, 1 and 2 in some
  order.
\<close>

theorem resliceTable_six_permutations:
  "(resliceTable a b \<noteq> None) = (a \<noteq> b)
   \<and> card {(a, b). resliceTable a b \<noteq> None} = 6
   \<and> (\<forall>t. resliceTable a b = Some t \<longrightarrow>
          length t = 3 \<and> mset (map Math_abs t) = {#Fin 0, Fin 1, Fin 2#})"
proof -
  have "(resliceTable a b \<noteq> None) = (a \<noteq> b)"
    by (rule resliceTable_defined)
  moreover have "card {(a, b). resliceTable a b \<noteq> None} = 6"
    by (simp only: resliceTable_pairs) simp
  moreover have "\<forall>t. resliceTable a b = Some t \<longrightarrow>
          length t = 3 \<and> mset (map Math_abs t) = {#Fin 0, Fin 1, Fin 2#}"
    by (cases a; cases b) auto
  ultimately show ?thesis
    by blast
qed

theorem resliceTable_six_permutations_witness:
  "resliceTable Axial Sagittal = Some [Fin 1, Fin (- 2), NegZero]
   \<and> length [Fin 1, Fin (- 2), NegZero] = 3
   \<and> mset (map Math_abs [Fin 1, Fin (- 2), NegZero]) = {#Fin 0, Fin 1, Fin 2#}"
  using resliceTable_six_permutations [of Axial Sagittal] by simp

section \<open>Round trip of a voxel\<close>

lemma length_three: "length xs = 3 \<Longrightarrow> \<exists>a b c. xs = [a, b, c]"
  by (cases xs; simp; cases "tl xs"; simp; cases "tl (tl xs)"; auto)

lemma remapVoxel_Axial_Sagittal:
  "remapVoxel dims [i, j, k] Axial Sagittal = Inr [j, dims Axial ! 2 - k, dims Axial ! 0 - i]"
  by (simp add: remapVoxel_def isNegativeSign_def js_set_def)

lemma remapVoxel_Sagittal_Axial:
  "remapVoxel dims [i, j, k] Sagittal Axial =
     Inr [dims Sagittal ! 2 - k, i, dims Sagittal ! 1 - j]"
  by (simp add: remapVoxel_def isNegativeSign_def js_set_def)

lemma remapVoxel_Sagittal_Coronal:
  "remapVoxel dims [i, j, k] Sagittal Coronal = Inr [dims Sagittal ! 2 - k, j, i]"
  by (simp add: remapVoxel_def isNegativeSign_def js_set_def)

lemma remapVoxel_Coronal_Sagittal:
  "remapVoxel dims [i, j, k] Coronal Sagittal = Inr [k, j, dims Coronal ! 0 - i]"
  by (simp add: remapVoxel_def isNegativeSign_def js_set_def)

lemma remapVoxel_Coronal_Axial:
  "remapVoxel dims [i, j, k] Coronal Axial = Inr [i, k, dims Coronal ! 1 - j]"
  by (simp add: remapVoxel_def isNegativeSign_def js_set_def)

lemma remapVoxel_Axial_Coronal:
  "remapVoxel dims [i, j, k] Axial Coronal = Inr [i, dims Axial ! 2 - k, j]"
  by (simp add: remapVoxel_def isNegativeSign_def js_set_def)

lemmas remapVoxel_pairs =
  remapVoxel_Axial_Sagittal remapVoxel_Sagittal_Axial remapVoxel_Sagittal_Coronal
  remapVoxel_Coronal_Sagittal remapVoxel_Coronal_Axial remapVoxel_Axial_Coronal

lemma permuted_dims:
  assumes "resliceTable A B = Some t" and "dims A = [a, b, c]"
    and "map Some (dims B) = permuteValues (map Math_abs t) (map Some (dims A))"
  shows "dims B = map (\<lambda>x. [a, b, c] ! the (array_index (Math_abs x))) t"
proof -
  have "map Some (dims B) = map Some (map (\<lambda>x. [a, b, c] ! the (array_index (Math_abs x))) t)"
    using assms by (cases A; cases B; auto simp: permuteValues_def js_get_def)
  then show ?thesis
    by (simp only: inj_map_eq_map [OF inj_Some])
qed

text \<open>
  C1: for two distinct orientations \<open>A\<close> and \<open>B\<close> and the per-orientation extents of one
  volume (the extents for \<open>B\<close> are the extents for \<open>A\<close> permuted by the table of the pair, as
  the reslice computes them), remapping a voxel from \<open>A\<close> to \<open>B\<close> and the result from \<open>B\<close> to
  \<open>A\<close> gives the voxel back. It holds for every voxel, in bounds or not.
\<close>

theorem remapVoxel_round_trip:
  assumes "A \<noteq> B" and "resliceTable A B = Some t" and "length (dims A) = 3"
    and "map Some (dims B) = permuteValues (map Math_abs t) (map Some (dims A))"
  shows "\<exists>w. remapVoxel dims [i, j, k] A B = Inr w \<and> remapVoxel dims w B A = Inr [i, j, k]"
proof -
  obtain a b c where dA: "dims A = [a, b, c]"
    using length_three [OF assms(3)] by blast
  note dB = permuted_dims [OF assms(2) dA assms(4)]
  show ?thesis
    using assms(1,2) dA dB by (cases A; cases B; auto simp: remapVoxel_pairs)
qed

theorem remapVoxel_round_trip_witness:
  "Axial \<noteq> Sagittal \<and> length (example_dims Axial) = 3
   \<and> remapVoxel example_dims [1, 2, 3] Axial Sagittal = Inr [2, 3, 3]
   \<and> remapVoxel example_dims [2, 3, 3] Sagittal Axial = Inr [1, 2, 3]"
proof -
  have t: "resliceTable Axial Sagittal = Some [Fin 1, Fin (- 2), NegZero]"
    by simp
  have d: "map Some (example_dims Sagittal) =
             permuteValues (map Math_abs [Fin 1, Fin (- 2), NegZero]) (map Some (example_dims Axial))"
    by (simp add: permuteValues_def js_get_def)
  have "\<exists>w. remapVoxel example_dims [1, 2, 3] Axial Sagittal = Inr w
          \<and> remapVoxel example_dims w Sagittal Axial = Inr [1, 2, 3]"
    by (rule remapVoxel_round_trip [OF _ t _ d]) simp_all
  then show ?thesis
    by (auto simp: remapVoxel_Axial_Sagittal)
qed

section \<open>Distance between slices\<close>

lemma js_nth_map_Some: "n < length xs \<Longrightarrow> js_nth (map Some xs) n = Some (xs ! n)"
  by (simp add: js_nth_def)

lemma getNormalOrientation_defined:
  assumes "6 \<le> length el"
  shows "\<exists>a b c. getNormalOrientation (map Some el) = [Some a, Some b, Some c]"
  using assms
  by (auto simp: getNormalOrientation_def js_nth_def num_sub_def num_mul_def)

lemma projection_defined:
  assumes "3 \<le> length p"
  shows "\<exists>d. projection [Some a, Some b, Some c] (map Some p) = Some d"
  using assms
  by (auto simp: projection_def js_nth_def num_add_def num_mul_def)

text \<open>
  C7, as the code has it: the distance of a slice to itself is 0 when the series has at
  most one slice, and when slice \<open>i\<close> exists and carries an orientation of six numbers and a
  position of three.
\<close>

theorem getDistanceBetweenSlices_same_slice:
  assumes "length (imageIds s) \<le> 1 \<or> has_geometry s i"
  shows "getDistanceBetweenSlices s i i = Inr (Number 0)"
proof (cases "length (imageIds s) \<le> 1")
  case True
  then show ?thesis
    by (simp add: getDistanceBetweenSlices_def)
next
  case False
  with assms have g: "has_geometry s i"
    by simp
  then obtain inst where inst: "instance_at s i = Some inst"
    by (auto simp: has_geometry_def split: option.splits)
  from g inst obtain orientation position where
    op: "or_else (imageOrientation (metadata inst)) (x00200037 (metadata inst)) = Some orientation"
        "or_else (imagePosition (metadata inst)) (x00200032 (metadata inst)) = Some position"
        "6 \<le> length orientation" "3 \<le> length position"
    by (auto simp: has_geometry_def split: option.splits)
  obtain a b c where n: "getNormalOrientation (map Some orientation) = [Some a, Some b, Some c]"
    using getNormalOrientation_defined [OF op(3)] by blast
  obtain d where d: "projection [Some a, Some b, Some c] (map Some position) = Some d"
    using projection_defined [OF op(4)] by blast
  show ?thesis
    using False inst op(1,2) n d
    by (simp add: getDistanceBetweenSlices_def num_sub_def num_abs_def number_val_def)
qed

theorem getDistanceBetweenSlices_same_slice_witness:
  "has_geometry axial_pair 1 \<and> getDistanceBetweenSlices axial_pair 1 1 = Inr (Number 0)"
proof -
  have g: "has_geometry axial_pair 1"
    by (simp add: has_geometry_def axial_pair_def axial_slice_def no_metadata_def
        instance_at_def or_else_def)
  then have "length (imageIds axial_pair) \<le> 1 \<or> has_geometry axial_pair 1"
    by simp
  from getDistanceBetweenSlices_same_slice [OF this] g show ?thesis
    by simp
qed

text \<open>
  C7 as stated fails on a series of two slices that carry no orientation and no position:
  the distance is \<open>undefined\<close>, not 0.
\<close>

theorem getDistanceBetweenSlices_undefined_counterexample:
  "getDistanceBetweenSlices bare_pair 0 0 = Inr Undefined
   \<and> getDistanceBetweenSlices bare_pair 0 0 \<noteq> Inr (Number 0)"
  by (simp add: getDistanceBetweenSlices_def bare_pair_def no_metadata_def
      instance_at_def or_else_def)


section \<open>The header\<close>










section \<open>Sorting by instance number\<close>

lemma first_error_None:
  "(\<forall>r\<in>set rs. \<exists>k. r = Inr k) \<Longrightarrow> first_error rs = None"
  by (induction rs) auto

lemma first_error_Some:
  "rs \<noteq> [] \<Longrightarrow> (\<forall>r\<in>set rs. r = Inl e) \<Longrightarrow> first_error rs = Some e"
  by (cases rs) auto

lemma insort_key_agree:
  "f x = g x \<Longrightarrow> \<forall>y\<in>set ys. f y = g y \<Longrightarrow> insort_key f x ys = insort_key g x ys"
  by (induction ys) auto

lemma sort_key_agree:
  "\<forall>x\<in>set xs. f x = g x \<Longrightarrow> sort_key f xs = sort_key g xs"
proof (induction xs)
  case Nil
  then show ?case by simp
next
  case (Cons x xs)
  then have "sort_key f xs = sort_key g xs"
    by simp
  moreover have "insort_key f x (sort_key g xs) = insort_key g x (sort_key g xs)"
    by (rule insort_key_agree) (use Cons.prems in auto)
  ultimately show ?case
    by (simp add: sort_key_simps)
qed

lemma key_ord_KNum_le: "(key_ord (KNum a) \<le> key_ord (KNum b)) = (a \<le> b)"
  by (auto simp: less_eq_prod_def)

lemma sorted_instance_keys:
  "sorted (map (\<lambda>x. key_ord (KNum (of_int (f x)))) ys) = sorted (map f ys)"
  by (induction ys) (auto simp: key_ord_KNum_le)

text \<open>
  C8: on a series whose slices all lack gating and carry an instance number, the priority
  list content time, instance number gives the slice identifiers in ascending order of
  instance number (the content-time attempt throws on a series that has a slice), strictly
  ascending when the instance numbers are distinct.
\<close>

theorem getSortedStack_instance_order:
  assumes "\<forall>id\<in>set (imageIds s). \<exists>inst. instances s id = Some inst
             \<and> lacks_gating (metadata inst) \<and> x00200013 (metadata inst) = Some (num id)"
  shows "\<exists>ys. getSortedStack s [''contentTime'', ''instanceNumber''] r = Some ys
           \<and> mset ys = mset (imageIds s)
           \<and> sorted (map num ys)
           \<and> (distinct (map num (imageIds s)) \<longrightarrow> sorted_wrt (<) (map num ys))
           \<and> (imageIds s \<noteq> [] \<longrightarrow> (\<exists>e. sort_attempt s ''contentTime'' = Inl e))"
proof -
  let ?ys = "sortBy (imageIds s) (\<lambda>id. KNum (of_int (num id)))"
  have cb: "sortStackCallback s id ''instanceNumber'' = Inr (KNum (of_int (num id)))"
    if "id \<in> set (imageIds s)" for id
    using assms that by (auto simp: sortStackCallback_def)
  have ct: "sortStackCallback s id ''contentTime'' =
              Inl (Thrown ''Not a time series: cardiacNumberOfImages tag not available or <= 1.'')"
    if "id \<in> set (imageIds s)" for id
    using assms that
    by (auto simp: sortStackCallback_def lacks_gating_def split: option.splits)
  have "first_error (map (\<lambda>id. sortStackCallback s id ''instanceNumber'') (imageIds s)) = None"
    by (rule first_error_None) (auto simp: cb)
  moreover have "sortBy (imageIds s)
                   (\<lambda>id. case sortStackCallback s id ''instanceNumber'' of Inr key \<Rightarrow> key | Inl _ \<Rightarrow> KUndefined)
                 = ?ys"
    unfolding sortBy_def by (rule sort_key_agree) (simp add: cb)
  ultimately have inst: "sort_attempt s ''instanceNumber'' = Inr ?ys"
    by (simp add: sort_attempt_def)
  have thrown: "\<exists>e. sort_attempt s ''contentTime'' = Inl e" if "imageIds s \<noteq> []"
  proof -
    have "first_error (map (\<lambda>id. sortStackCallback s id ''contentTime'') (imageIds s)) =
            Some (Thrown ''Not a time series: cardiacNumberOfImages tag not available or <= 1.'')"
      by (rule first_error_Some) (use that ct in auto)
    then show ?thesis
      by (simp add: sort_attempt_def)
  qed
  have empty: "sort_attempt s ''contentTime'' = Inr []" if "imageIds s = []"
    using that by (simp add: sort_attempt_def sortBy_def)
  have res: "getSortedStack s [''contentTime'', ''instanceNumber''] r = Some ?ys"
  proof (cases "imageIds s = []")
    case True
    then show ?thesis
      using empty by (simp add: getSortedStack_def sortBy_def)
  next
    case False
    then obtain e where "sort_attempt s ''contentTime'' = Inl e"
      using thrown by blast
    then show ?thesis
      using inst by (simp add: getSortedStack_def)
  qed
  have m: "mset ?ys = mset (imageIds s)"
    by (simp add: sortBy_def)
  have so: "sorted (map num ?ys)"
  proof -
    have "sorted (map (\<lambda>x. key_ord (KNum (of_int (num x)))) ?ys)"
      unfolding sortBy_def by (rule sorted_sort_key)
    then show ?thesis
      by (simp only: sorted_instance_keys)
  qed
  have st: "sorted_wrt (<) (map num ?ys)" if "distinct (map num (imageIds s))"
  proof -
    have "mset (map num ?ys) = mset (map num (imageIds s))"
      using m by (metis mset_map)
    then have "distinct (map num ?ys)"
      using that by (metis mset_eq_imp_distinct_iff)
    with so show ?thesis
      by (simp add: strict_sorted_iff)
  qed
  show ?thesis
    using res m so st thrown by blast
qed

theorem getSortedStack_instance_order_witness:
  "getSortedStack unsorted_stack [''contentTime'', ''instanceNumber''] False = Some [''b'', ''c'', ''a'']"
proof -
  have slices: "\<forall>id\<in>set (imageIds unsorted_stack). \<exists>inst. instances unsorted_stack id = Some inst
             \<and> lacks_gating (metadata inst)
             \<and> x00200013 (metadata inst) =
                 Some ((\<lambda>x. if x = ''a'' then 3 else if x = ''b'' then 1 else 2) id)"
    by (simp add: unsorted_stack_def numbered_slice_def no_metadata_def lacks_gating_def)
  from getSortedStack_instance_order [OF slices, of False]
  obtain ys where ys: "getSortedStack unsorted_stack [''contentTime'', ''instanceNumber''] False = Some ys"
    by blast
  have "getSortedStack unsorted_stack [''contentTime'', ''instanceNumber''] False = Some [''b'', ''c'', ''a'']"
    by (simp add: getSortedStack_def sort_attempt_def sortStackCallback_def unsorted_stack_def
        numbered_slice_def no_metadata_def sortBy_def less_eq_prod_def)
  with ys show ?thesis
    by simp
qed

section \<open>Resliced metadata\<close>

text \<open>
  C9: a reslice from an orientation to itself raises (the table has no entry for the pair,
  and the code reads a property of \<open>undefined\<close>); it never returns a volume.
\<close>

theorem getReslicedMetadata_same_orientation:
  "getReslicedMetadata newImageId a a s = Inl TypeError"
  by (cases a) (simp_all add: getReslicedMetadata_def)





subsection \<open>The reslice of the example cube\<close>

lemma axial_cube_first: "instance_at axial_cube 0 = Some (cube_slice 0)"
  by (simp add: instance_at_def axial_cube_def)

lemma axial_cube_spacing:
  "spacingArray axial_cube (metadata (cube_slice 0)) = Inr [Some 1, Some 1, Some 1]"
  by (simp add: spacingArray_def getDistanceBetweenSlices_def axial_cube_def cube_slice_def
      no_metadata_def instance_at_def or_else_def getNormalOrientation_def projection_def
      js_nth_def num_sub_def num_mul_def num_add_def num_abs_def number_val_def)

lemma axial_cube_iop:
  "getReslicedIOP (Some [1, 0, 0, 0, 1, 0]) [Fin 1, Fin (- 2), NegZero] =
     Inr (Some [Some 0, Some 1, Some 0, Some 0, Some 0, Some (- 1)])"
  by (simp add: getReslicedIOP_def getNormalOrientation_def js_nth_def js_get_def
      num_sub_def num_mul_def num_neg_def isNegativeSign_def)

lemma sagittal_normal:
  "map num_abs (getNormalOrientation [Some 0, Some 1, Some 0, Some 0, Some 0, Some (- 1)]) =
     [Some 1, Some 0, Some 0]"
  by (simp add: getNormalOrientation_def js_nth_def num_sub_def num_mul_def num_abs_def)

lemma sagittal_major: "major_index [Some 1, Some 0, Some 0] = 0"
  by (simp add: major_index_def)

lemma axial_cube_frame:
  "resliced_frame (metadata (cube_slice 0)) [Fin 1, Fin (- 2), NegZero]
     [Some 4, Some 4, Some 4] [Some 4, Some 4, Some 4]
     [Some 1, Some 1, Some 1] [Some 1, Some 1, Some 1]
     (Some [Some 0, Some 1, Some 0, Some 0, Some 0, Some (- 1)]) f = Inr (sagittal_slice f)"
  by (simp add: resliced_frame_def getReslicedIPP_def getReslicedSliceLocation_def
      sagittal_normal sagittal_major cube_slice_def no_metadata_def sagittal_slice_def
      flipped_index_def table_at_def isNegativeSign_def map_indexed_def upt_rec
      getNormalOrientation_def js_nth_def js_at_def size_num_def
      num_sub_def num_mul_def num_add_def num_abs_def)

lemma axial_cube_resliced:
  "getReslicedMetadata resliced_id Axial Sagittal axial_cube = Inr sagittal_cube"
proof -
  have sz: "permuteValues [Fin 1, Fin 2, Fin 0] [Some 4, Some 4, Some (4::nat)]
              = [Some 4, Some 4, Some 4]"
    by (simp add: permuteValues_def js_get_def)
  have sp: "permuteValues [Fin 1, Fin 2, Fin 0] [Some 1, Some 1, Some (1::rat)]
              = [Some 1, Some 1, Some 1]"
    by (simp add: permuteValues_def js_get_def)
  have md: "x00280011 (metadata (cube_slice 0)) = Some 4" "x00280010 (metadata (cube_slice 0)) = Some 4"
    "x00200037 (metadata (cube_slice 0)) = Some [1, 0, 0, 0, 1, 0]"
    by (simp_all add: cube_slice_def no_metadata_def)
  have n: "length (imageIds axial_cube) = 4"
    by (simp add: axial_cube_def)
  have up: "[0..<4] = [0, 1, 2, 3::nat]"
    by (simp add: upt_rec)
  show ?thesis
    unfolding getReslicedMetadata_def
    by (simp add: axial_cube_first axial_cube_spacing md n sz sp axial_cube_iop
        js_nth_def up axial_cube_frame sagittal_cube_def del: resliced_id.simps)
      (simp add: Let_def)
qed


section \<open>Resliced pixels\<close>

lemma length_typed_array_set: "length (elements (typed_array_set a n v)) = length (elements a)"
  by (simp add: typed_array_set_def)

lemma length_write_pixel:
  "length (elements (write_pixel orig fromCols t frame rs cs j i a)) = length (elements a)"
  by (simp add: write_pixel_def Let_def length_typed_array_set)

lemma length_fold_columns:
  "length (elements (fold (write_pixel orig fromCols t frame rs cs j) is a)) = length (elements a)"
  by (induction "is" arbitrary: a) (simp_all add: length_write_pixel)

lemma length_fold_rows:
  "length (elements (fold (\<lambda>j. fold (write_pixel orig fromCols t frame rs cs j) is) js a))
     = length (elements a)"
  by (induction js arbitrary: a) (simp_all add: length_fold_columns)

lemma getTypedArray_supported:
  assumes "resliced_repr m = Some rp" and "supported_repr rp"
  shows "\<exists>a. getTypedArray m n = Inr (Some a) \<and> length (elements a) = n"
  using assms by (auto simp: getTypedArray_def getPixelRepresentation_def supported_repr_def)

text \<open>
  C3, as the code has it: the buffer returned for a resliced slice of \<open>r\<close> rows and \<open>c\<close>
  columns, whose pixel representation is one of the six that have a typed array, has
  \<open>r * c\<close> elements (one slice), whatever the table and the source series (which needs a
  first slice).
\<close>

theorem getReslicedPixeldata_length:
  assumes "resliced_instances res imageId = Some inst"
    and "resliced_x00280010 (resliced_metadata inst) = Some r"
    and "resliced_x00280011 (resliced_metadata inst) = Some c"
    and "resliced_repr (resliced_metadata inst) = Some rp" and "supported_repr rp"
    and "instance_at orig 0 = Some first"
  shows "\<exists>buffer. getReslicedPixeldata imageId orig res = Inr (Some buffer)
           \<and> length (elements buffer) = r * c"
proof -
  obtain a where a: "getTypedArray (resliced_metadata inst) (r * c) = Inr (Some a)"
      "length (elements a) = r * c"
    using getTypedArray_supported [OF assms(4,5)] by blast
  show ?thesis
    using assms(1,2,3,6) a
    by (simp add: getReslicedPixeldata_def Let_def length_fold_rows)
qed

lemma sagittal_r1:
  "getReslicedPixeldata ''r1'' axial_cube sagittal_cube =
     Inr (Some \<lparr> kind = Uint8,
                 elements = [0, 0, 0, 0, 52, 56, 60, 64, 36, 40, 44, 48, 20, 24, 28, 32] \<rparr>)"
  by code_simp

lemma sagittal_r0:
  "getReslicedPixeldata ''r0'' axial_cube sagittal_cube =
     Inr (Some \<lparr> kind = Uint8,
                 elements = [0, 0, 0, 0, 53, 57, 61, 0, 37, 41, 45, 0, 21, 25, 29, 0] \<rparr>)"
  by code_simp

theorem getReslicedPixeldata_length_witness:
  "\<exists>buffer. getReslicedPixeldata ''r1'' axial_cube sagittal_cube = Inr (Some buffer)
     \<and> length (elements buffer) = 4 * 4"
proof -
  have i: "resliced_instances sagittal_cube ''r1'' = Some (sagittal_slice 1)"
    by (simp add: sagittal_cube_def)
  have m: "resliced_x00280010 (resliced_metadata (sagittal_slice 1)) = Some 4"
    "resliced_x00280011 (resliced_metadata (sagittal_slice 1)) = Some 4"
    "resliced_repr (resliced_metadata (sagittal_slice 1)) = Some ''Uint8''"
    by (simp_all add: sagittal_slice_def)
  have s: "supported_repr ''Uint8''"
    by (simp add: supported_repr_def)
  from getReslicedPixeldata_length [OF i m s axial_cube_first] show ?thesis
    by simp
qed

text \<open>
  C3 as stated fails on the sagittal reslice of the cube of 4 slices of 4 rows and 4
  columns: the buffer of the second of its 4 slices has 16 elements, not 64.
\<close>

theorem getReslicedPixeldata_one_slice_counterexample:
  "getReslicedMetadata resliced_id Axial Sagittal axial_cube = Inr sagittal_cube
   \<and> getReslicedPixeldata ''r1'' axial_cube sagittal_cube =
       Inr (Some \<lparr> kind = Uint8,
                   elements = [0, 0, 0, 0, 52, 56, 60, 64, 36, 40, 44, 48, 20, 24, 28, 32] \<rparr>)
   \<and> resliced_x00280010 (resliced_metadata (sagittal_slice 1)) = Some 4
   \<and> resliced_x00280011 (resliced_metadata (sagittal_slice 1)) = Some 4
   \<and> length (resliced_imageIds sagittal_cube) = 4
   \<and> length [0, 0, 0, 0, 52, 56, 60, 64, 36, 40, 44, 48, 20, 24, 28, 32 :: int] \<noteq> 4 * 4 * 4"
proof -
  have "resliced_x00280010 (resliced_metadata (sagittal_slice 1)) = Some 4"
    and "resliced_x00280011 (resliced_metadata (sagittal_slice 1)) = Some 4"
    and "length (resliced_imageIds sagittal_cube) = 4"
    by (simp_all add: sagittal_slice_def sagittal_cube_def)
  then show ?thesis
    using axial_cube_resliced sagittal_r1 by simp
qed

text \<open>
  C10 fails on the code: on the first sagittal slice of the cube the row entry of the table
  is negative, the write for row 0 and column 0 goes to index 16 of a buffer of 16 elements
  and is dropped, and the elements 0 to 3 of the returned buffer are never written (they
  keep their initial zero; no pixel of the cube is zero).
\<close>

theorem getReslicedPixeldata_row_zero_dropped:
  "isNegativeSign (table_at [Fin 1, Fin (- 2), NegZero] 1)
   \<and> output_index [Fin 1, Fin (- 2), NegZero] 4 4 0 0 = 16
   \<and> output_index [Fin 1, Fin (- 2), NegZero] 4 4 3 0 = 4
   \<and> getReslicedMetadata resliced_id Axial Sagittal axial_cube = Inr sagittal_cube
   \<and> getReslicedPixeldata ''r0'' axial_cube sagittal_cube =
       Inr (Some \<lparr> kind = Uint8,
                   elements = [0, 0, 0, 0, 53, 57, 61, 0, 37, 41, 45, 0, 21, 25, 29, 0] \<rparr>)"
proof -
  have "isNegativeSign (table_at [Fin 1, Fin (- 2), NegZero] 1)"
    and "output_index [Fin 1, Fin (- 2), NegZero] 4 4 0 0 = 16"
    and "output_index [Fin 1, Fin (- 2), NegZero] 4 4 3 0 = 4"
    by (simp_all add: output_index_def table_at_def isNegativeSign_def)
  then show ?thesis
    using axial_cube_resliced sagittal_r0 by simp
qed

end
